theory Spec2Isabelle
  imports Complex_Main "HOL-Library.Log_Nat"
begin

section \<open>Dates and optional strings\<close>

text \<open>
  A \<^verbatim>\<open>Date\<close> is modelled by its \<^verbatim>\<open>getTime()\<close> value: milliseconds since the
  epoch, an integer. Every \<^verbatim>\<open>new Date()\<close> of a method is an argument of the model,
  one clock reading per occurrence, in the order in which the method reads the clock.
\<close>

type_synonym date = int

text \<open>
  Optional and nullable strings (\<^verbatim>\<open>notes?: string\<close>, nullable text columns) are
  \<open>string option\<close>. JavaScript treats \<^verbatim>\<open>undefined\<close>, \<^verbatim>\<open>null\<close> and the empty string
  as false in a condition; \<^verbatim>\<open>s || ''\<close> is the string itself when it is true and
  \<^verbatim>\<open>''\<close> otherwise.
\<close>

fun truthy :: "string option \<Rightarrow> bool" where
  "truthy None = False"
| "truthy (Some s) = (s \<noteq> [])"

fun or_empty :: "string option \<Rightarrow> string" where
  "or_empty None = []"
| "or_empty (Some s) = s"

fun or_null :: "string option \<Rightarrow> string option" where
  "or_null None = None"
| "or_null (Some s) = (if s = [] then None else Some s)"

text \<open>
  A nullable JSON array column: \<^verbatim>\<open>if (!this.h) { this.h = []; }\<close> replaces an
  absent array by the empty one (an empty array is true in a condition).
\<close>

fun or_nil :: "'a list option \<Rightarrow> 'a list" where
  "or_nil None = []"
| "or_nil (Some xs) = xs"

section \<open>The alert entity (src/database/entities/Alert.ts)\<close>

datatype AlertSeverity = LOW | MEDIUM | HIGH | CRITICAL | EMERGENCY

datatype AlertStatus = ACTIVE | ACKNOWLEDGED | RESOLVED | ESCALATED | DISMISSED

datatype AlertCategory =
  TANK_MONITORING | SYSTEM_MONITORING | SAFETY | SECURITY | MAINTENANCE
| EMERGENCY_CATEGORY | USER_MANAGEMENT

datatype NotificationMethod = EMAIL | SMS | PUSH | IN_APP | VOICE | PAGER

text \<open>The delivery status of a notification: \<^verbatim>\<open>'sent' | 'delivered' | 'failed'\<close>.\<close>

datatype DeliveryStatus = Sent | Delivered | Failed

text \<open>
  The entries of the three history arrays. Their fields carry a prefix where the
  entity has a column of the same name.
\<close>

record notification_entry =
  n_method :: NotificationMethod
  n_recipient :: string
  n_sentAt :: date
  n_status :: DeliveryStatus
  n_error :: "string option"

record escalation_entry =
  e_level :: int
  e_escalatedTo :: string
  e_escalatedAt :: date
  e_reason :: string

record action_entry =
  action :: string
  performedBy :: string
  performedAt :: date
  details :: string

text \<open>
  The columns of the entity that its methods read or write, its identity and every
  timestamp column. The relation objects and the remaining descriptive columns
  (source, location, metadata, sensorData, notification settings, external
  references, recurrence pattern, tags, priority, flags isSilent and isTest) are
  neither read nor written by any method modelled here. The integer columns are
  unbounded integers: the counters stay far below \<open>2^53\<close>, where \<^verbatim>\<open>++\<close> is exact.
  The columns \<^verbatim>\<open>id\<close> and \<^verbatim>\<open>notes\<close> are named alertId and notesText here.
\<close>

record alert =
  alertId :: string
  title :: string
  message :: string
  severity :: AlertSeverity
  status :: AlertStatus
  category :: AlertCategory
  tankId :: "string option"
  userId :: "string option"
  acknowledgedBy :: "string option"
  acknowledgedAt :: "date option"
  resolvedBy :: "string option"
  resolvedAt :: "date option"
  resolutionNotes :: "string option"
  escalatedTo :: "string option"
  escalatedAt :: "date option"
  escalationReason :: "string option"
  escalationLevel :: int
  acknowledgmentCount :: int
  notificationCount :: int
  notificationHistory :: "notification_entry list option"
  escalationHistory :: "escalation_entry list option"
  actionHistory :: "action_entry list option"
  requiresAcknowledgment :: bool
  requiresResolution :: bool
  autoEscalate :: bool
  escalationDelay :: int
  nextEscalationAt :: "date option"
  nextOccurrence :: "date option"
  occurrenceCount :: int
  notesText :: "string option"
  createdAt :: date
  updatedAt :: date

text \<open>\<^verbatim>\<open>addActionHistory(action, performedBy, details?)\<close>, reading the clock once.\<close>

definition addActionHistory :: "string \<Rightarrow> string \<Rightarrow> string option \<Rightarrow> date \<Rightarrow> alert \<Rightarrow> alert" where
  "addActionHistory act actor dets now a =
     a\<lparr>actionHistory := Some (or_nil (actionHistory a) @
        [\<lparr>action = act, performedBy = actor, performedAt = now,
          details = or_empty dets\<rparr>])\<rparr>"

text \<open>
  \<^verbatim>\<open>acknowledge(acknowledgedBy, notes?)\<close>. No status is tested. Clock readings:
  \<open>t1\<close> for acknowledgedAt, \<open>t2\<close> for the history entry.
\<close>

definition acknowledge :: "string \<Rightarrow> string option \<Rightarrow> date \<Rightarrow> date \<Rightarrow> alert \<Rightarrow> alert" where
  "acknowledge ackBy newNotes t1 t2 a =
     (let a1 = a\<lparr>status := ACKNOWLEDGED,
                  acknowledgedBy := Some ackBy,
                  acknowledgedAt := Some t1,
                  acknowledgmentCount := acknowledgmentCount a + 1\<rparr>;
          a2 = (if truthy newNotes
                then a1\<lparr>notesText := Some (if truthy (notesText a1)
                                        then or_empty (notesText a1) @ [CHR 0x0A] @ or_empty newNotes
                                        else or_empty newNotes)\<rparr>
                else a1)
      in addActionHistory ''acknowledged'' ackBy (Some (or_empty newNotes)) t2 a2)"

text \<open>\<^verbatim>\<open>resolve(resolvedBy, resolutionNotes?)\<close>: \<open>t1\<close> for resolvedAt, \<open>t2\<close> for the entry.\<close>

definition resolve :: "string \<Rightarrow> string option \<Rightarrow> date \<Rightarrow> date \<Rightarrow> alert \<Rightarrow> alert" where
  "resolve resBy resNotes t1 t2 a =
     addActionHistory ''resolved'' resBy (Some (or_empty resNotes)) t2
       (a\<lparr>status := RESOLVED,
          resolvedBy := Some resBy,
          resolvedAt := Some t1,
          resolutionNotes := or_null resNotes\<rparr>)"

text \<open>
  \<^verbatim>\<open>escalate(escalatedTo, reason)\<close>: \<open>t1\<close> for escalatedAt, \<open>t2\<close> for the
  escalation-history entry, \<open>t3\<close> for the action-history entry. The entry records
  the level after the increment.
\<close>

definition escalate :: "string \<Rightarrow> string \<Rightarrow> date \<Rightarrow> date \<Rightarrow> date \<Rightarrow> alert \<Rightarrow> alert" where
  "escalate escTo reason t1 t2 t3 a =
     (let a1 = a\<lparr>status := ESCALATED,
                  escalatedTo := Some escTo,
                  escalatedAt := Some t1,
                  escalationReason := Some reason,
                  escalationLevel := escalationLevel a + 1\<rparr>;
          a2 = a1\<lparr>escalationHistory := Some (or_nil (escalationHistory a1) @
                  [\<lparr>e_level = escalationLevel a1, e_escalatedTo = escTo,
                    e_escalatedAt = t2, e_reason = reason\<rparr>])\<rparr>
      in addActionHistory ''escalated'' escTo (Some reason) t3 a2)"

text \<open>\<^verbatim>\<open>dismiss(dismissedBy, reason?)\<close>: the status and one history entry.\<close>

definition dismiss :: "string \<Rightarrow> string option \<Rightarrow> date \<Rightarrow> alert \<Rightarrow> alert" where
  "dismiss disBy reason t a =
     addActionHistory ''dismissed'' disBy (Some (or_empty reason)) t
       (a\<lparr>status := DISMISSED\<rparr>)"

text \<open>\<^verbatim>\<open>addNotification(method, recipient, status, error?)\<close>.\<close>

definition addNotification ::
  "NotificationMethod \<Rightarrow> string \<Rightarrow> DeliveryStatus \<Rightarrow> string option \<Rightarrow> date \<Rightarrow> alert \<Rightarrow> alert" where
  "addNotification meth recipient st err t a =
     a\<lparr>notificationHistory := Some (or_nil (notificationHistory a) @
          [\<lparr>n_method = meth, n_recipient = recipient, n_sentAt = t,
            n_status = st, n_error = err\<rparr>]),
       notificationCount := notificationCount a + 1\<rparr>"

definition isUrgent :: "alert \<Rightarrow> bool" where
  "isUrgent a = (severity a = CRITICAL \<or> severity a = EMERGENCY)"

definition needsImmediateAttention :: "alert \<Rightarrow> bool" where
  "needsImmediateAttention a =
     (status a = ACTIVE \<and> (isUrgent a \<or> requiresAcknowledgment a))"

text \<open>
  \<^verbatim>\<open>getDuration()\<close>: whole minutes since creation,
  \<^verbatim>\<open>Math.floor((now.getTime() - created.getTime()) / (1000 * 60))\<close>. On integers
  \<open>div\<close> rounds towards minus infinity, as \<^verbatim>\<open>Math.floor\<close> does.
\<close>

definition getDuration :: "date \<Rightarrow> alert \<Rightarrow> int" where
  "getDuration now a = (now - createdAt a) div (1000 * 60)"

text \<open>
  \<^verbatim>\<open>shouldEscalate()\<close>: the duration in minutes is compared with escalationDelay,
  whose column is declared \<^verbatim>\<open>default: 300 // 5 minutes in seconds\<close>.
\<close>

definition shouldEscalate :: "date \<Rightarrow> alert \<Rightarrow> bool" where
  "shouldEscalate now a =
     (if \<not> autoEscalate a \<or> status a \<noteq> ACTIVE then False
      else escalationDelay a \<le> getDuration now a)"

text \<open>
  A call of one of the mutating methods, with its arguments and clock readings, and a
  sequence of such calls on one alert instance, applied from left to right.
\<close>

datatype operation =
  Acknowledge string "string option" date date
| Resolve string "string option" date date
| Escalate string string date date date
| Dismiss string "string option" date
| AddNotification NotificationMethod string DeliveryStatus "string option" date

fun apply_operation :: "operation \<Rightarrow> alert \<Rightarrow> alert" where
  "apply_operation (Acknowledge ackBy newNotes t1 t2) a = acknowledge ackBy newNotes t1 t2 a"
| "apply_operation (Resolve resBy resNotes t1 t2) a = resolve resBy resNotes t1 t2 a"
| "apply_operation (Escalate escTo reason t1 t2 t3) a = escalate escTo reason t1 t2 t3 a"
| "apply_operation (Dismiss disBy reason t) a = dismiss disBy reason t a"
| "apply_operation (AddNotification meth recipient st err t) a =
     addNotification meth recipient st err t a"

definition run_operations :: "operation list \<Rightarrow> alert \<Rightarrow> alert" where
  "run_operations ops a = fold apply_operation ops a"

text \<open>
  The timestamp columns of the entity, in the order of their declaration:
  acknowledgedAt, resolvedAt, escalatedAt, nextEscalationAt, nextOccurrence,
  createdAt, updatedAt.
\<close>

definition timestampColumns :: "alert \<Rightarrow> date option list" where
  "timestampColumns a =
     [acknowledgedAt a, resolvedAt a, escalatedAt a, nextEscalationAt a,
      nextOccurrence a, Some (createdAt a), Some (updatedAt a)]"

text \<open>
  A freshly created alert, as the column defaults give it: status Active, severity
  Medium, counters zero, escalationDelay 300, nothing acknowledged, resolved or
  escalated, created at time 0.
\<close>

definition fresh_alert :: alert where
  "fresh_alert =
     \<lparr>alertId = ''a1'', title = ''Low Oxygen Level'', message = ''Tank T-1 is low'',
      severity = MEDIUM, status = ACTIVE, category = TANK_MONITORING,
      tankId = Some ''T-1'', userId = None,
      acknowledgedBy = None, acknowledgedAt = None,
      resolvedBy = None, resolvedAt = None, resolutionNotes = None,
      escalatedTo = None, escalatedAt = None, escalationReason = None,
      escalationLevel = 0, acknowledgmentCount = 0, notificationCount = 0,
      notificationHistory = None, escalationHistory = None, actionHistory = None,
      requiresAcknowledgment = False, requiresResolution = False,
      autoEscalate = False, escalationDelay = 300,
      nextEscalationAt = None, nextOccurrence = None, occurrenceCount = 0,
      notesText = None, createdAt = 0, updatedAt = 0\<rparr>"

section \<open>Numbers and strings at run time\<close>

text \<open>
  A \<^verbatim>\<open>number\<close> is an IEEE 754 binary64 value: a finite value, one of the two
  zeros, one of the two infinities, or NaN. \<open>Num r\<close> is the finite value \<open>r\<close>, a
  rational that binary64 represents (\<open>Num 0\<close> is \<open>+0\<close>); \<open>NegZero\<close> is \<open>-0\<close>. The
  operations round their exact result to binary64. No operation raises.
\<close>

datatype jsnum = Num rat | NegZero | PosInfinity | NegInfinity | NaN

text \<open>
  Rounding to binary64, to nearest with ties to even. \<open>binade x\<close> is the exponent
  \<open>e\<close> with \<open>2^e \<le> |x| < 2^(e+1)\<close>, found from the bit lengths of numerator and
  denominator. The spacing of the representable values around \<open>x\<close> is
  \<open>2^(e - 52)\<close>, and \<open>2^(-1074)\<close> below the normal range. A result of
  magnitude \<open>2^1024\<close> or more overflows to an infinity, a result that rounds to
  nothing is a zero with the sign of \<open>x\<close>.
\<close>

definition pow2 :: "int \<Rightarrow> rat" where
  "pow2 e = (if 0 \<le> e then 2 ^ nat e else 1 / 2 ^ nat (- e))"

definition binade :: "rat \<Rightarrow> int" where
  "binade x =
     (let (p, q) = quotient_of \<bar>x\<bar>; g = bitlen p - bitlen q
      in if pow2 g \<le> \<bar>x\<bar> then g else g - 1)"

definition round_half_even :: "rat \<Rightarrow> int" where
  "round_half_even x =
     (let n = \<lfloor>x\<rfloor>; d = x - of_int n
      in if d < 1 / 2 then n else if 1 / 2 < d then n + 1
         else if even n then n else n + 1)"

definition binary64 :: "rat \<Rightarrow> jsnum" where
  "binary64 x =
     (if x = 0 then Num 0
      else let u = pow2 (max (binade x) (- 1022) - 52);
               y = of_int (round_half_even (x / u)) * u
           in if pow2 1024 \<le> \<bar>y\<bar> then (if 0 < x then PosInfinity else NegInfinity)
              else if y = 0 then (if 0 < x then Num 0 else NegZero)
              else Num y)"

fun negative :: "jsnum \<Rightarrow> bool" where
  "negative (Num r) = (r < 0)"
| "negative NegZero = True"
| "negative NegInfinity = True"
| "negative PosInfinity = False"
| "negative NaN = False"

fun infinite_num :: "jsnum \<Rightarrow> bool" where
  "infinite_num PosInfinity = True"
| "infinite_num NegInfinity = True"
| "infinite_num _ = False"

fun zero_num :: "jsnum \<Rightarrow> bool" where
  "zero_num (Num r) = (r = 0)"
| "zero_num NegZero = True"
| "zero_num _ = False"

fun magnitude :: "jsnum \<Rightarrow> rat" where
  "magnitude (Num r) = r"
| "magnitude _ = 0"

definition signed_zero :: "bool \<Rightarrow> jsnum" where
  "signed_zero neg = (if neg then NegZero else Num 0)"

definition signed_infinity :: "bool \<Rightarrow> jsnum" where
  "signed_infinity neg = (if neg then NegInfinity else PosInfinity)"

text \<open>
  The operators \<^verbatim>\<open>/\<close> and \<^verbatim>\<open>*\<close> on numbers. The sign of a zero or an infinity
  is the exclusive or of the signs of the operands; a non-zero finite value divided
  by a zero is an infinity, and \<open>0 / 0\<close>, \<open>\<infinity> / \<infinity>\<close> and \<open>\<infinity> * 0\<close> are NaN.
\<close>

definition js_div :: "jsnum \<Rightarrow> jsnum \<Rightarrow> jsnum" where
  "js_div x y =
     (if x = NaN \<or> y = NaN then NaN
      else if infinite_num x
        then (if infinite_num y then NaN else signed_infinity (negative x \<noteq> negative y))
      else if infinite_num y then signed_zero (negative x \<noteq> negative y)
      else if zero_num y
        then (if zero_num x then NaN else signed_infinity (negative x \<noteq> negative y))
      else if zero_num x then signed_zero (negative x \<noteq> negative y)
      else binary64 (magnitude x / magnitude y))"

definition js_mul :: "jsnum \<Rightarrow> jsnum \<Rightarrow> jsnum" where
  "js_mul x y =
     (if x = NaN \<or> y = NaN then NaN
      else if infinite_num x \<or> infinite_num y
        then (if zero_num x \<or> zero_num y then NaN
              else signed_infinity (negative x \<noteq> negative y))
      else if zero_num x \<or> zero_num y then signed_zero (negative x \<noteq> negative y)
      else binary64 (magnitude x * magnitude y))"

text \<open>
  \<^verbatim>\<open>x <= y\<close> on numbers: false as soon as one side is NaN; the two zeros are equal.
\<close>

fun number_le :: "jsnum \<Rightarrow> jsnum \<Rightarrow> bool" where
  "number_le NaN _ = False"
| "number_le _ NaN = False"
| "number_le NegInfinity _ = True"
| "number_le _ PosInfinity = True"
| "number_le PosInfinity _ = False"
| "number_le _ NegInfinity = False"
| "number_le x y = (magnitude x \<le> magnitude y)"

text \<open>
  Strings are sequences of code units, here the characters of \<open>string\<close> (code units
  up to 255). Two strings are compared code unit by code unit, a proper prefix
  being smaller.
\<close>

fun string_less :: "string \<Rightarrow> string \<Rightarrow> bool" where
  "string_less [] [] = False"
| "string_less [] (y # ys) = True"
| "string_less (x # xs) [] = False"
| "string_less (x # xs) (y # ys) =
     (if (of_char x :: nat) < of_char y then True
      else if (of_char y :: nat) < of_char x then False
      else string_less xs ys)"

text \<open>
  The conversion of a string to a number (StringToNumber of ECMAScript): white space
  is trimmed; the empty string is \<open>+0\<close>; a binary, octal or hexadecimal integer
  literal carries no sign; a decimal literal is an optional sign followed by
  \<^verbatim>\<open>Infinity\<close> or by digits with an optional fraction and exponent; anything else
  is NaN. The value of the literal is rounded to binary64.
\<close>

definition StrWhiteSpaceChar :: "char \<Rightarrow> bool" where
  "StrWhiteSpaceChar c = ((of_char c :: nat) \<in> set [9, 10, 11, 12, 13, 32, 160])"

definition trim :: "string \<Rightarrow> string" where
  "trim s = rev (dropWhile StrWhiteSpaceChar (rev (dropWhile StrWhiteSpaceChar s)))"

text \<open>The value of a digit, 36 for a character that is no digit of any radix.\<close>

definition digit_value :: "char \<Rightarrow> nat" where
  "digit_value c =
     (let n = of_char c
      in if 48 \<le> n \<and> n \<le> 57 then n - 48
         else if 97 \<le> n \<and> n \<le> 102 then n - 87
         else if 65 \<le> n \<and> n \<le> 70 then n - 55
         else 36)"

definition digit_of :: "nat \<Rightarrow> char \<Rightarrow> bool" where
  "digit_of radix c = (digit_value c < radix)"

definition digits_value :: "nat \<Rightarrow> string \<Rightarrow> nat" where
  "digits_value radix s = foldl (\<lambda>a c. radix * a + digit_value c) 0 s"

definition pow10 :: "int \<Rightarrow> rat" where
  "pow10 e = (if 0 \<le> e then 10 ^ nat e else 1 / 10 ^ nat (- e))"

definition SignedInteger :: "string \<Rightarrow> int option" where
  "SignedInteger s =
     (let neg = (case s of [] \<Rightarrow> False | c # r \<Rightarrow> c = CHR ''-'');
          ds = (case s of [] \<Rightarrow> []
                | c # r \<Rightarrow> if c = CHR ''-'' \<or> c = CHR ''+'' then r else s)
      in if ds \<noteq> [] \<and> list_all (digit_of 10) ds
         then Some (if neg then - int (digits_value 10 ds) else int (digits_value 10 ds))
         else None)"

text \<open>An absent exponent part counts as the exponent 0.\<close>

definition ExponentPart :: "string \<Rightarrow> int option" where
  "ExponentPart s =
     (case s of [] \<Rightarrow> Some 0
      | c # r \<Rightarrow> if c = CHR ''e'' \<or> c = CHR ''E'' then SignedInteger r else None)"

definition StrUnsignedDecimalLiteral :: "string \<Rightarrow> rat option" where
  "StrUnsignedDecimalLiteral s =
     (let ip = takeWhile (digit_of 10) s;
          r1 = dropWhile (digit_of 10) s;
          dot = (case r1 of [] \<Rightarrow> False | c # r \<Rightarrow> c = CHR ''.'');
          fp = (if dot then takeWhile (digit_of 10) (tl r1) else []);
          r2 = (if dot then dropWhile (digit_of 10) (tl r1) else r1)
      in if ip = [] \<and> fp = [] then None
         else case ExponentPart r2 of
                None \<Rightarrow> None
              | Some e \<Rightarrow>
                  Some (of_nat (digits_value 10 (ip @ fp)) * pow10 (e - int (length fp))))"

definition NonDecimalIntegerLiteral :: "string \<Rightarrow> rat option" where
  "NonDecimalIntegerLiteral s =
     (case s of
        z # p # ds \<Rightarrow>
          (let radix = (if p = CHR ''x'' \<or> p = CHR ''X'' then 16
                        else if p = CHR ''o'' \<or> p = CHR ''O'' then 8
                        else if p = CHR ''b'' \<or> p = CHR ''B'' then 2 else (0::nat))
           in if z = CHR ''0'' \<and> 0 < radix \<and> ds \<noteq> [] \<and> list_all (digit_of radix) ds
              then Some (of_nat (digits_value radix ds)) else None)
      | _ \<Rightarrow> None)"

definition StringToNumber :: "string \<Rightarrow> jsnum" where
  "StringToNumber str =
     (let s = trim str
      in if s = [] then Num 0
         else case NonDecimalIntegerLiteral s of
                Some v \<Rightarrow> binary64 v
              | None \<Rightarrow>
                  (let neg = (case s of [] \<Rightarrow> False | c # r \<Rightarrow> c = CHR ''-'');
                       body = (case s of [] \<Rightarrow> []
                               | c # r \<Rightarrow> if c = CHR ''-'' \<or> c = CHR ''+'' then r else s)
                   in if body = ''Infinity'' then signed_infinity neg
                      else case StrUnsignedDecimalLiteral body of
                             None \<Rightarrow> NaN
                           | Some v \<Rightarrow>
                               if v = 0 then signed_zero neg
                               else binary64 (if neg then - v else v)))"

text \<open>
  The value held by a column that the entity declares \<^verbatim>\<open>number\<close>. The decimal
  columns are declared \<^verbatim>\<open>type: 'decimal'\<close> without a transformer, on a PostgreSQL
  data source: a tank built in memory holds the numbers it was given, a tank
  loaded from the database holds the text of each decimal, such as \<^verbatim>\<open>'1800.00'\<close>.
\<close>

datatype jsval = JNum jsnum | JStr string

fun ToNumber :: "jsval \<Rightarrow> jsnum" where
  "ToNumber (JNum n) = n"
| "ToNumber (JStr s) = StringToNumber s"

text \<open>
  \<^verbatim>\<open>x <= y\<close> on values: two strings are compared as text; in every other case both
  sides are converted to numbers.
\<close>

fun js_le :: "jsval \<Rightarrow> jsval \<Rightarrow> bool" where
  "js_le (JStr a) (JStr b) = (\<not> string_less b a)"
| "js_le x y = number_le (ToNumber x) (ToNumber y)"

section \<open>The oxygen tank entity (src/database/entities/OxygenTank.ts)\<close>

record alert_settings =
  lowPressureThreshold :: jsval
  highPressureThreshold :: jsval
  lowLevelThreshold :: jsval
  leakDetectionEnabled :: bool
  temperatureMonitoringEnabled :: bool

text \<open>
  The columns that the methods below read or write, and the configured thresholds.
\<close>

record oxygen_tank =
  tankNumber :: string
  capacity :: jsval
  currentLevel :: jsval
  fillPercentage :: jsval
  currentPressure :: jsval
  maxPressure :: jsval
  minPressure :: jsval
  criticalPressure :: jsval
  refillThreshold :: jsval
  isLeaking :: bool
  isDamaged :: bool
  lastReadingAt :: "date option"
  alertSettings :: "alert_settings option"
  temperature :: "jsval option"
  humidity :: "jsval option"

text \<open>\<^verbatim>\<open>needsRefill()\<close> reads the stored fill percentage.\<close>

definition needsRefill :: "oxygen_tank \<Rightarrow> bool" where
  "needsRefill t = js_le (fillPercentage t) (refillThreshold t)"

text \<open>\<^verbatim>\<open>isCritical()\<close>: the literal 10 is in the source.\<close>

definition isCritical :: "oxygen_tank \<Rightarrow> bool" where
  "isCritical t =
     (js_le (currentPressure t) (criticalPressure t)
      \<or> js_le (fillPercentage t) (JNum (Num 10)))"

text \<open>\<^verbatim>\<open>updateUsageStatistics()\<close> only stamps the reading time.\<close>

definition updateUsageStatistics :: "date \<Rightarrow> oxygen_tank \<Rightarrow> oxygen_tank" where
  "updateUsageStatistics now t = t\<lparr>lastReadingAt := Some now\<rparr>"

text \<open>
  \<^verbatim>\<open>updateReadings(currentLevel, currentPressure, temperature?, humidity?)\<close>:
  \<open>t1\<close> is the clock reading of the method, \<open>t2\<close> that of updateUsageStatistics.
  The capacity is not tested before the division; \<^verbatim>\<open>/\<close> converts both operands
  to numbers, so that the stored fill percentage is always a number.
\<close>

definition updateReadings ::
  "jsval \<Rightarrow> jsval \<Rightarrow> jsval option \<Rightarrow> jsval option \<Rightarrow> date \<Rightarrow> date \<Rightarrow> oxygen_tank \<Rightarrow> oxygen_tank" where
  "updateReadings lvl pressure temp hum t1 t2 t =
     (let k1 = t\<lparr>currentLevel := lvl,
                  currentPressure := pressure,
                  fillPercentage :=
                    JNum (js_mul (js_div (ToNumber lvl) (ToNumber (capacity t))) (Num 100)),
                  lastReadingAt := Some t1\<rparr>;
          k2 = (case temp of None \<Rightarrow> k1 | Some v \<Rightarrow> k1\<lparr>temperature := Some v\<rparr>);
          k3 = (case hum of None \<Rightarrow> k2 | Some v \<Rightarrow> k2\<lparr>humidity := Some v\<rparr>)
      in updateUsageStatistics t2 k3)"

text \<open>
  The first sample tank of the seed data as it is built in memory (numbers), with a
  fill percentage of 85, and the second one as it comes back from the database
  (text), with a fill percentage of 90.
\<close>

definition memory_tank :: oxygen_tank where
  "memory_tank =
     \<lparr>tankNumber = ''TANK-001'', capacity = JNum (Num 100), currentLevel = JNum (Num 85),
      fillPercentage = JNum (Num 85), currentPressure = JNum (Num 2000),
      maxPressure = JNum (Num 2200), minPressure = JNum (Num 100),
      criticalPressure = JNum (Num 200), refillThreshold = JNum (Num 20),
      isLeaking = False, isDamaged = False, lastReadingAt = None,
      alertSettings = None, temperature = None, humidity = None\<rparr>"

definition loaded_tank :: oxygen_tank where
  "loaded_tank =
     \<lparr>tankNumber = ''TANK-002'', capacity = JStr ''50.00'', currentLevel = JStr ''45.00'',
      fillPercentage = JStr ''90.00'', currentPressure = JStr ''1800.00'',
      maxPressure = JStr ''2200.00'', minPressure = JStr ''100.00'',
      criticalPressure = JStr ''200.00'', refillThreshold = JStr ''20.00'',
      isLeaking = False, isDamaged = False, lastReadingAt = None,
      alertSettings = None, temperature = None, humidity = None\<rparr>"

section \<open>Auxiliary facts\<close>

lemma apply_operation_level:
  "escalationLevel a \<le> escalationLevel (apply_operation op a)"
  by (cases op)
    (simp_all add: acknowledge_def resolve_def escalate_def dismiss_def
      addNotification_def addActionHistory_def Let_def)

lemma fold_operations_level:
  "escalationLevel a \<le> escalationLevel (fold apply_operation ops a)"
proof (induction ops arbitrary: a)
  case Nil
  show ?case by simp
next
  case (Cons op ops)
  have "escalationLevel a \<le> escalationLevel (apply_operation op a)"
    by (rule apply_operation_level)
  also have "\<dots> \<le> escalationLevel (fold apply_operation ops (apply_operation op a))"
    by (rule Cons.IH)
  finally show ?case by simp
qed

lemma minutes_reached:
  fixes d k :: int
  shows "(k \<le> d div 60000) = (k * 60000 \<le> d)"
proof -
  define q where "q = d div 60000"
  define r where "r = d mod 60000"
  have d: "d = q * 60000 + r"
    by (simp add: q_def r_def)
  have r0: "0 \<le> r" and r1: "r < 60000"
    by (simp_all add: r_def)
  have "(k \<le> q) = (k * 60000 \<le> d)"
  proof
    assume "k \<le> q"
    then have "k * 60000 \<le> q * 60000" by simp
    with d r0 show "k * 60000 \<le> d" by linarith
  next
    assume h: "k * 60000 \<le> d"
    show "k \<le> q"
    proof (rule ccontr)
      assume "\<not> k \<le> q"
      then have "q + 1 \<le> k" by simp
      then have "q * 60000 + 60000 \<le> k * 60000" by linarith
      with h d r1 show False by linarith
    qed
  qed
  then show ?thesis by (simp add: q_def)
qed

text \<open>
  The rounding: \<open>binade\<close> finds the power of two at or below the magnitude, and a
  finite result of \<open>binary64\<close> lies within half a spacing of the exact value.
\<close>

lemma pow2_powi: "pow2 e = 2 powi e"
  by (simp add: pow2_def power_int_def field_simps)

lemma round_half_even_near: "\<bar>x - of_int (round_half_even x)\<bar> \<le> 1 / 2"
proof -
  have f: "of_int \<lfloor>x\<rfloor> \<le> x" "x < of_int \<lfloor>x\<rfloor> + 1" by linarith+
  show ?thesis
    using f unfolding round_half_even_def Let_def
    by (simp add: abs_le_iff; linarith)
qed

lemma binade_bounds:
  assumes "x \<noteq> 0"
  shows "pow2 (binade x) \<le> \<bar>x\<bar> \<and> \<bar>x\<bar> < pow2 (binade x + 1)"
proof -
  obtain p q where pq: "quotient_of \<bar>x\<bar> = (p, q)" by (cases "quotient_of \<bar>x\<bar>")
  have q: "0 < q" using pq quotient_of_denom_pos by blast
  have xpq: "\<bar>x\<bar> = of_int p / of_int q" using pq quotient_of_div by blast
  have p: "0 < p"
  proof (rule ccontr)
    assume "\<not> 0 < p"
    then have "(of_int p :: rat) \<le> 0" by simp
    then have "(of_int p :: rat) / of_int q \<le> 0" using q by (simp add: divide_nonpos_pos)
    with xpq assms show False by simp
  qed
  define m where "m = nat (bitlen p - 1)"
  define n where "n = nat (bitlen q - 1)"
  have bp: "bitlen p = int m + 1" and bq: "bitlen q = int n + 1"
    using p q by (auto simp: m_def n_def bitlen_alt_def)
  have np1: "nat (bitlen p - 1) = m" by (simp add: m_def)
  have np2: "nat (bitlen p) = m + 1" using bp by simp
  have nq1: "nat (bitlen q - 1) = n" by (simp add: n_def)
  have nq2: "nat (bitlen q) = n + 1" using bq by simp
  have "2 ^ m \<le> p \<and> p < 2 ^ (m + 1)"
    using bitlen_bounds [OF p] unfolding np1 np2 .
  then have pm: "(2::rat) ^ m \<le> of_int p" "(of_int p :: rat) < 2 ^ (m + 1)"
    by (metis of_int_le_iff of_int_numeral of_int_power, metis of_int_less_iff of_int_numeral of_int_power)
  have "2 ^ n \<le> q \<and> q < 2 ^ (n + 1)"
    using bitlen_bounds [OF q] unfolding nq1 nq2 .
  then have qn: "(2::rat) ^ n \<le> of_int q" "(of_int q :: rat) < 2 ^ (n + 1)"
    by (metis of_int_le_iff of_int_numeral of_int_power, metis of_int_less_iff of_int_numeral of_int_power)
  have qpos: "(0::rat) < of_int q" using q by simp
  have ppos: "(0::rat) < of_int p" using p by simp
  have "of_int p * (2::rat) ^ n \<le> of_int p * of_int q"
    using qn(1) ppos by (simp add: mult_left_mono)
  also have "\<dots> < 2 ^ (m + 1) * of_int q"
    using pm(2) qpos by (simp add: mult_strict_right_mono)
  finally have "of_int p * (2::rat) ^ n < 2 ^ (m + 1) * of_int q" .
  then have up: "\<bar>x\<bar> < 2 ^ (m + 1) / 2 ^ n"
    using qpos unfolding xpq by (simp add: field_simps)
  have "(2::rat) ^ m * of_int q < 2 ^ m * 2 ^ (n + 1)"
    using qn(2) by (simp add: mult_strict_left_mono)
  also have "\<dots> \<le> of_int p * 2 ^ (n + 1)"
    using pm(1) by (simp add: mult_right_mono)
  finally have "(2::rat) ^ m * of_int q < of_int p * 2 ^ (n + 1)" .
  then have low: "2 ^ m / 2 ^ (n + 1) < \<bar>x\<bar>"
    using qpos unfolding xpq by (simp add: field_simps)
  define g where "g = int m - int n"
  have g1: "pow2 (g + 1) = 2 ^ (m + 1) / 2 ^ n"
  proof -
    have e: "g + 1 = int (m + 1) - int n" by (simp add: g_def)
    have "pow2 (g + 1) = 2 powi (int (m + 1) - int n)" unfolding pow2_powi e by (rule refl)
    also have "\<dots> = 2 powi int (m + 1) / 2 powi int n" by (rule power_int_diff) simp
    finally show ?thesis by (simp only: power_int_of_nat)
  qed
  have g2: "pow2 (g - 1) = 2 ^ m / 2 ^ (n + 1)"
  proof -
    have e: "g - 1 = int m - int (n + 1)" by (simp add: g_def)
    have "pow2 (g - 1) = 2 powi (int m - int (n + 1))" unfolding pow2_powi e by (rule refl)
    also have "\<dots> = 2 powi int m / 2 powi int (n + 1)" by (rule power_int_diff) simp
    finally show ?thesis by (simp only: power_int_of_nat)
  qed
  have b: "binade x = (if pow2 g \<le> \<bar>x\<bar> then g else g - 1)"
    by (simp add: binade_def pq bp bq g_def)
  show ?thesis
  proof (cases "pow2 g \<le> \<bar>x\<bar>")
    case True
    then show ?thesis using b up g1 by simp
  next
    case False
    then show ?thesis using b low g2 by simp
  qed
qed

lemma pow2_pos: "0 < pow2 e"
  by (simp add: pow2_def)

lemma binary64_error:
  assumes "binary64 x = Num y"
  shows "\<bar>x - y\<bar> \<le> pow2 (max (binade x) (- 1022) - 52) / 2"
proof (cases "x = 0")
  case True
  with assms have "y = 0" by (simp add: binary64_def)
  with True show ?thesis using pow2_pos [of "max (binade 0) (- 1022) - 52"] by simp
next
  case False
  define u where "u = pow2 (max (binade x) (- 1022) - 52)"
  define n where "n = round_half_even (x / u)"
  have upos: "0 < u" by (simp add: u_def pow2_pos)
  have yy: "y = of_int n * u"
    using assms False unfolding binary64_def Let_def u_def [symmetric] n_def [symmetric]
    by (auto split: if_splits)
  have "\<bar>x / u - of_int n\<bar> \<le> 1 / 2"
    unfolding n_def by (rule round_half_even_near)
  then have "\<bar>x / u - of_int n\<bar> * u \<le> 1 / 2 * u"
    using upos by (simp add: mult_right_mono)
  moreover have "\<bar>x / u - of_int n\<bar> * u = \<bar>(x / u - of_int n) * u\<bar>"
    using upos by (simp add: abs_mult)
  moreover have "(x / u - of_int n) * u = x - of_int n * u"
    using upos by (simp add: field_simps)
  ultimately show ?thesis by (simp add: yy u_def)
qed

text \<open>Conversions and roundings at the values used below.\<close>

lemmas parse_defs = StringToNumber_def trim_def StrWhiteSpaceChar_def
  NonDecimalIntegerLiteral_def StrUnsignedDecimalLiteral_def ExponentPart_def
  SignedInteger_def digit_of_def digits_value_def digit_value_def pow10_def
  signed_zero_def signed_infinity_def

lemma binary64_7_100:
  "binary64 (7 / 100) = Num (1261007895663739 / 18014398509481984)"
  by code_simp

lemma binary64_7_product:
  "binary64 (31525197391593475 / 4503599627370496) = Num (7881299347898369 / 1125899906842624)"
  by code_simp

lemma binary64_15_100:
  "binary64 (3 / 20) = Num (5404319552844595 / 36028797018963968)"
  by code_simp

lemma binary64_15_product:
  "binary64 (135107988821114875 / 9007199254740992) = Num 15"
  by code_simp

lemma binary64_1800: "binary64 1800 = Num 1800"
  by code_simp

lemma binary64_200: "binary64 200 = Num 200"
  by code_simp

lemma binary64_90: "binary64 90 = Num 90"
  by code_simp

lemma binary64_50: "binary64 50 = Num 50"
  by code_simp

lemma binary64_20: "binary64 20 = Num 20"
  by code_simp

lemma binary64_1_10:
  "binary64 (1 / 10) = Num (3602879701896397 / 36028797018963968)"
  by code_simp

lemma binary64_10_product:
  "binary64 (90071992547409925 / 9007199254740992) = Num 10"
  by code_simp

lemma js_div_finite:
  "0 < c \<Longrightarrow> js_div (Num l) (Num c) = (if l = 0 then Num 0 else binary64 (l / c))"
  by (simp add: js_div_def signed_zero_def)

section \<open>The lifecycle of an alert\<close>

text \<open>
  C1. The specification states: a transition invoked from a status in which it is not legal raises
  InvalidTransitionError and changes nothing. The methods test no status and raise
  nothing. Acknowledging a Resolved alert at time 2000 makes it Acknowledged, counts
  the acknowledgment and stamps acknowledgedAt.
\<close>

theorem acknowledge_resolved_counterexample:
  "status (acknowledge ''opY'' None 2000 2001 (fresh_alert\<lparr>status := RESOLVED\<rparr>)) = ACKNOWLEDGED
   \<and> status (acknowledge ''opY'' None 2000 2001 (fresh_alert\<lparr>status := RESOLVED\<rparr>)) \<noteq> RESOLVED
   \<and> acknowledgmentCount (acknowledge ''opY'' None 2000 2001 (fresh_alert\<lparr>status := RESOLVED\<rparr>)) = 1
   \<and> acknowledgedAt (acknowledge ''opY'' None 2000 2001 (fresh_alert\<lparr>status := RESOLVED\<rparr>)) = Some 2000"
  by (simp add: acknowledge_def addActionHistory_def fresh_alert_def Let_def)

text \<open>
  C1, as the code has it: no transition method tests the status or raises. From
  every status \<open>s\<close>, also Resolved and Dismissed, each of the four returns the alert
  with the status of its own name and with its updates applied: the acknowledgment
  is counted, the resolution is stamped, the escalation level grows by one.
\<close>

theorem transitions_unguarded:
  "status (acknowledge ackBy newNotes t1 t2 (a\<lparr>status := s\<rparr>)) = ACKNOWLEDGED
   \<and> acknowledgmentCount (acknowledge ackBy newNotes t1 t2 (a\<lparr>status := s\<rparr>)) =
       acknowledgmentCount a + 1
   \<and> status (resolve resBy resNotes t1 t2 (a\<lparr>status := s\<rparr>)) = RESOLVED
   \<and> resolvedAt (resolve resBy resNotes t1 t2 (a\<lparr>status := s\<rparr>)) = Some t1
   \<and> status (escalate escTo reason t1 t2 t3 (a\<lparr>status := s\<rparr>)) = ESCALATED
   \<and> escalationLevel (escalate escTo reason t1 t2 t3 (a\<lparr>status := s\<rparr>)) =
       escalationLevel a + 1
   \<and> status (dismiss disBy why t (a\<lparr>status := s\<rparr>)) = DISMISSED"
  by (simp add: acknowledge_def resolve_def escalate_def dismiss_def
      addActionHistory_def Let_def)

text \<open>
  C2. The specification states: the auto-escalation query is true exactly when autoEscalate is set,
  the status is Active and the age of the alert is at least escalationDelay seconds.
  The code compares the age in whole minutes with escalationDelay, so that the query
  is true exactly when the age is at least escalationDelay minutes
  (escalationDelay times 60000 milliseconds).
\<close>

theorem shouldEscalate_delay_in_minutes:
  "shouldEscalate now a =
     (autoEscalate a \<and> status a = ACTIVE \<and> escalationDelay a * 60000 \<le> now - createdAt a)"
  by (auto simp add: shouldEscalate_def getDuration_def minutes_reached)

text \<open>
  Scenario D: an Active alert with autoEscalate set and escalationDelay 300, created
  301 seconds before the query. The age exceeds 300 seconds and the query is false.
\<close>

theorem shouldEscalate_scenario_D:
  "\<not> shouldEscalate 301000 (fresh_alert\<lparr>autoEscalate := True\<rparr>)
   \<and> autoEscalate (fresh_alert\<lparr>autoEscalate := True\<rparr>)
   \<and> status (fresh_alert\<lparr>autoEscalate := True\<rparr>) = ACTIVE
   \<and> escalationDelay (fresh_alert\<lparr>autoEscalate := True\<rparr>) = 300
   \<and> 301000 - createdAt (fresh_alert\<lparr>autoEscalate := True\<rparr>) = 301 * 1000"
  using shouldEscalate_delay_in_minutes [of 301000 "fresh_alert\<lparr>autoEscalate := True\<rparr>"]
  by (simp add: fresh_alert_def)

text \<open>
  C3. The specification states: once acknowledgedAt is set, a later acknowledgment leaves
  acknowledgedBy and acknowledgedAt as they are. An alert acknowledged by opA at time
  1000 and acknowledged again by opB at time 2000 carries opB and 2000.
\<close>

theorem reacknowledge_counterexample:
  "acknowledgedAt (acknowledge ''opB'' None 2000 2001
      (fresh_alert\<lparr>acknowledgedBy := Some ''opA'', acknowledgedAt := Some 1000\<rparr>)) = Some 2000
   \<and> acknowledgedAt (acknowledge ''opB'' None 2000 2001
      (fresh_alert\<lparr>acknowledgedBy := Some ''opA'', acknowledgedAt := Some 1000\<rparr>)) \<noteq> Some 1000
   \<and> acknowledgedBy (acknowledge ''opB'' None 2000 2001
      (fresh_alert\<lparr>acknowledgedBy := Some ''opA'', acknowledgedAt := Some 1000\<rparr>)) = Some ''opB''"
  by (simp add: acknowledge_def addActionHistory_def fresh_alert_def Let_def)

text \<open>
  C3, as the code has it: every acknowledgment, also of an alert acknowledged before,
  stores its own actor and clock reading (the last acknowledgment wins), adds one to
  acknowledgmentCount and appends one action-history entry.
\<close>

theorem acknowledge_last_wins:
  "acknowledgedBy (acknowledge ackBy newNotes t1 t2 a) = Some ackBy
   \<and> acknowledgedAt (acknowledge ackBy newNotes t1 t2 a) = Some t1
   \<and> acknowledgmentCount (acknowledge ackBy newNotes t1 t2 a) = acknowledgmentCount a + 1
   \<and> actionHistory (acknowledge ackBy newNotes t1 t2 a) =
       Some (or_nil (actionHistory a) @
         [\<lparr>action = ''acknowledged'', performedBy = ackBy, performedAt = t2,
           details = or_empty newNotes\<rparr>])"
  by (simp add: acknowledge_def addActionHistory_def Let_def)

text \<open>
  C4. Every call of escalate sets the status to Escalated, stores the target, the
  clock reading and the reason, adds exactly one to escalationLevel, and appends one
  entry to the escalation history (with the new level) and one to the action history.
  No sequence of operations on an alert lowers its escalationLevel.
\<close>

theorem escalate_effects_and_monotone_level:
  "status (escalate escTo reason t1 t2 t3 a) = ESCALATED
   \<and> escalatedTo (escalate escTo reason t1 t2 t3 a) = Some escTo
   \<and> escalatedAt (escalate escTo reason t1 t2 t3 a) = Some t1
   \<and> escalationReason (escalate escTo reason t1 t2 t3 a) = Some reason
   \<and> escalationLevel (escalate escTo reason t1 t2 t3 a) = escalationLevel a + 1
   \<and> escalationHistory (escalate escTo reason t1 t2 t3 a) =
       Some (or_nil (escalationHistory a) @
         [\<lparr>e_level = escalationLevel a + 1, e_escalatedTo = escTo,
           e_escalatedAt = t2, e_reason = reason\<rparr>])
   \<and> actionHistory (escalate escTo reason t1 t2 t3 a) =
       Some (or_nil (actionHistory a) @
         [\<lparr>action = ''escalated'', performedBy = escTo, performedAt = t3,
           details = reason\<rparr>])
   \<and> (\<forall>ops. escalationLevel a \<le> escalationLevel (run_operations ops a))"
  by (simp add: escalate_def addActionHistory_def Let_def run_operations_def
      fold_operations_level)

text \<open>
  C7. The specification states: every transition, dismiss too, appends one action-history entry and
  sets one timestamp column. Dismissing a fresh alert at time 5000 leaves every
  timestamp column as it was: the entity has no column for the time of dismissal.
\<close>

theorem dismiss_timestamp_counterexample:
  "timestampColumns (dismiss ''opX'' None 5000 fresh_alert) = timestampColumns fresh_alert
   \<and> timestampColumns (dismiss ''opX'' None 5000 fresh_alert) =
       [None, None, None, None, None, Some 0, Some 0]
   \<and> status (dismiss ''opX'' None 5000 fresh_alert) = DISMISSED"
  by (simp add: dismiss_def addActionHistory_def timestampColumns_def fresh_alert_def)

text \<open>
  C7, as the code has it: acknowledge, resolve and escalate each append exactly one
  action-history entry and set exactly one timestamp column (acknowledgedAt,
  resolvedAt, escalatedAt), leaving the others; dismiss appends exactly one
  action-history entry and sets no timestamp column.
\<close>

theorem transition_history_and_timestamp:
  "actionHistory (acknowledge ackBy newNotes t1 t2 a) =
       Some (or_nil (actionHistory a) @
         [\<lparr>action = ''acknowledged'', performedBy = ackBy, performedAt = t2,
           details = or_empty newNotes\<rparr>])
   \<and> timestampColumns (acknowledge ackBy newNotes t1 t2 a) =
       [Some t1, resolvedAt a, escalatedAt a, nextEscalationAt a,
        nextOccurrence a, Some (createdAt a), Some (updatedAt a)]
   \<and> actionHistory (resolve resBy resNotes t1 t2 a) =
       Some (or_nil (actionHistory a) @
         [\<lparr>action = ''resolved'', performedBy = resBy, performedAt = t2,
           details = or_empty resNotes\<rparr>])
   \<and> timestampColumns (resolve resBy resNotes t1 t2 a) =
       [acknowledgedAt a, Some t1, escalatedAt a, nextEscalationAt a,
        nextOccurrence a, Some (createdAt a), Some (updatedAt a)]
   \<and> actionHistory (escalate escTo reason t1 t2 t3 a) =
       Some (or_nil (actionHistory a) @
         [\<lparr>action = ''escalated'', performedBy = escTo, performedAt = t3,
           details = reason\<rparr>])
   \<and> timestampColumns (escalate escTo reason t1 t2 t3 a) =
       [acknowledgedAt a, resolvedAt a, Some t1, nextEscalationAt a,
        nextOccurrence a, Some (createdAt a), Some (updatedAt a)]
   \<and> actionHistory (dismiss disBy why t a) =
       Some (or_nil (actionHistory a) @
         [\<lparr>action = ''dismissed'', performedBy = disBy, performedAt = t,
           details = or_empty why\<rparr>])
   \<and> timestampColumns (dismiss disBy why t a) = timestampColumns a"
  by (simp add: acknowledge_def resolve_def escalate_def dismiss_def
      addActionHistory_def timestampColumns_def Let_def)

text \<open>
  C8. In every status, recording a notification returns normally, appends exactly
  one entry to the notification history, adds one to notificationCount and leaves
  the status as it is.
\<close>

theorem addNotification_effects:
  "notificationHistory (addNotification meth recipient st err t a) =
       Some (or_nil (notificationHistory a) @
         [\<lparr>n_method = meth, n_recipient = recipient, n_sentAt = t,
           n_status = st, n_error = err\<rparr>])
   \<and> length (or_nil (notificationHistory (addNotification meth recipient st err t a))) =
       length (or_nil (notificationHistory a)) + 1
   \<and> notificationCount (addNotification meth recipient st err t a) = notificationCount a + 1
   \<and> status (addNotification meth recipient st err t a) = status a
   \<and> status (addNotification meth recipient st err t (a\<lparr>status := RESOLVED\<rparr>)) = RESOLVED
   \<and> status (addNotification meth recipient st err t (a\<lparr>status := DISMISSED\<rparr>)) = DISMISSED"
  by (simp add: addNotification_def)

text \<open>
  C9. Acknowledging with non-empty notes also changes the free-text notes column:
  the new notes follow the old ones after a newline, or become the column when it
  was absent or empty.
\<close>

theorem acknowledge_appends_notes:
  "n \<noteq> [] \<Longrightarrow>
   notesText (acknowledge ackBy (Some n) t1 t2 a) =
     (case notesText a of
        None \<Rightarrow> Some n
      | Some old \<Rightarrow> if old = [] then Some n else Some (old @ [CHR 0x0A] @ n))"
  by (simp add: acknowledge_def addActionHistory_def Let_def split: option.split)

theorem acknowledge_appends_notes_witness:
  "notesText (acknowledge ''opA'' (Some ''valve checked'') 1000 1001
      (fresh_alert\<lparr>notesText := Some ''first look''\<rparr>)) =
     Some (''first look'' @ [CHR 0x0A] @ ''valve checked'')
   \<and> notesText (acknowledge ''opA'' (Some ''valve checked'') 1000 1001 fresh_alert) =
     Some ''valve checked''"
  using acknowledge_appends_notes
      [of "''valve checked''" "''opA''" 1000 1001 "fresh_alert\<lparr>notesText := Some ''first look''\<rparr>"]
    acknowledge_appends_notes [of "''valve checked''" "''opA''" 1000 1001 fresh_alert]
  by (simp add: fresh_alert_def)

section \<open>The readings of a tank\<close>

text \<open>
  C5. The specification states: with a capacity of zero, evaluating a reading signals
  a ConfigurationError and the division is not performed. The entity bounds the fill
  percentage by 0 and 100 and \<^verbatim>\<open>@Min(0)\<close> admits a capacity of zero;
  updateReadings then divides by it. With a level of 15 the stored fill percentage
  is Infinity, for a capacity held as the number 0 and as the text \<^verbatim>\<open>'0.00'\<close>
  alike, needsRefill is false, with a level of 0 the fill percentage is NaN, and
  with the capacity \<open>-0\<close> it is minus Infinity. Nothing is raised.
\<close>

theorem updateReadings_zero_capacity_evaluated:
  "fillPercentage (updateReadings (JNum (Num 15)) (JNum (Num 1500)) None None 10 11
      (memory_tank\<lparr>capacity := JNum (Num 0)\<rparr>)) = JNum PosInfinity
   \<and> \<not> needsRefill (updateReadings (JNum (Num 15)) (JNum (Num 1500)) None None 10 11
      (memory_tank\<lparr>capacity := JNum (Num 0)\<rparr>))
   \<and> fillPercentage (updateReadings (JNum (Num 15)) (JNum (Num 1500)) None None 10 11
      (loaded_tank\<lparr>capacity := JStr ''0.00''\<rparr>)) = JNum PosInfinity
   \<and> fillPercentage (updateReadings (JNum (Num 0)) (JNum (Num 1500)) None None 10 11
      (memory_tank\<lparr>capacity := JNum (Num 0)\<rparr>)) = JNum NaN
   \<and> fillPercentage (updateReadings (JNum (Num 15)) (JNum (Num 1500)) None None 10 11
      (memory_tank\<lparr>capacity := JNum NegZero\<rparr>)) = JNum NegInfinity"
  by (simp add: updateReadings_def updateUsageStatistics_def needsRefill_def memory_tank_def
      loaded_tank_def Let_def js_div_def js_mul_def parse_defs)

text \<open>
  C6. The specification states: with a positive capacity the low-level condition is
  breached exactly when level / capacity * 100 is at most the refill threshold. With
  capacity 100, level 7 and threshold 7 the exact value is 7, but the quotient and
  the product are each rounded to binary64: the stored fill percentage is
  7.000000000000001 (7881299347898369 / 2^50) and needsRefill is false.
\<close>

theorem needsRefill_rounding_counterexample:
  "fillPercentage (updateReadings (JNum (Num 7)) (JNum (Num 1500)) None None 10 11
      (memory_tank\<lparr>refillThreshold := JNum (Num 7)\<rparr>)) =
     JNum (Num (7881299347898369 / 1125899906842624))
   \<and> \<not> needsRefill (updateReadings (JNum (Num 7)) (JNum (Num 1500)) None None 10 11
      (memory_tank\<lparr>refillThreshold := JNum (Num 7)\<rparr>))
   \<and> (7 :: rat) / 100 * 100 \<le> 7"
  by (simp add: updateReadings_def updateUsageStatistics_def needsRefill_def memory_tank_def
      Let_def js_div_def js_mul_def binary64_7_100 binary64_7_product)

text \<open>
  C6, as the code has it: for a tank whose capacity is the positive number \<open>c\<close>
  (held as a number or as text) and a reading of level \<open>l\<close>, the stored fill
  percentage is the binary64 product by 100 of the binary64 quotient \<open>l / c\<close>, and
  needsRefill holds exactly when this rounded value is at most the refill threshold
  (a threshold held as text is converted to a number).
\<close>

theorem needsRefill_after_updateReadings_rounded:
  "ToNumber (capacity t) = Num c \<Longrightarrow> 0 < c \<Longrightarrow> ToNumber lvl = Num l \<Longrightarrow>
   fillPercentage (updateReadings lvl pressure temp hum t1 t2 t) =
     JNum (js_mul (if l = 0 then Num 0 else binary64 (l / c)) (Num 100))
   \<and> needsRefill (updateReadings lvl pressure temp hum t1 t2 t) =
     number_le (js_mul (if l = 0 then Num 0 else binary64 (l / c)) (Num 100))
       (ToNumber (refillThreshold t))"
  by (simp add: updateReadings_def updateUsageStatistics_def needsRefill_def Let_def
      js_div_finite split: option.split)

text \<open>
  Scenario A: capacity 100, level 15, refill threshold 20. The fill percentage is
  exactly 15 and the low-level condition is breached. The same on the loaded tank,
  whose capacity \<^verbatim>\<open>'50.00'\<close> and threshold \<^verbatim>\<open>'20.00'\<close> are text: a level of 5
  gives the fill percentage 10.
\<close>

theorem needsRefill_scenario_A:
  "fillPercentage (updateReadings (JNum (Num 15)) (JNum (Num 1500)) None None 10 11 memory_tank)
     = JNum (Num 15)
   \<and> needsRefill (updateReadings (JNum (Num 15)) (JNum (Num 1500)) None None 10 11 memory_tank)
   \<and> capacity memory_tank = JNum (Num 100) \<and> refillThreshold memory_tank = JNum (Num 20)
   \<and> fillPercentage (updateReadings (JNum (Num 5)) (JNum (Num 1500)) None None 10 11 loaded_tank)
     = JNum (Num 10)
   \<and> needsRefill (updateReadings (JNum (Num 5)) (JNum (Num 1500)) None None 10 11 loaded_tank)
   \<and> capacity loaded_tank = JStr ''50.00'' \<and> refillThreshold loaded_tank = JStr ''20.00''"
  using needsRefill_after_updateReadings_rounded
      [of memory_tank 100 "JNum (Num 15)" 15 "JNum (Num 1500)" None None 10 11]
    needsRefill_after_updateReadings_rounded
      [of loaded_tank 50 "JNum (Num 5)" 5 "JNum (Num 1500)" None None 10 11]
  by (simp add: memory_tank_def loaded_tank_def js_mul_def parse_defs binary64_15_100
      binary64_15_product binary64_50 binary64_20 binary64_1_10 binary64_10_product)

text \<open>
  Before a fresh reading, needsRefill on a loaded tank compares two texts: a stored
  fill percentage of \<^verbatim>\<open>'9.00'\<close> is not at most the threshold \<^verbatim>\<open>'20.00'\<close>.
\<close>

lemma needsRefill_loaded_text:
  "\<not> needsRefill (loaded_tank\<lparr>fillPercentage := JStr ''9.00''\<rparr>)"
  by (simp add: needsRefill_def loaded_tank_def)

text \<open>
  C10. The specification states: isCritical is true exactly when the pressure is at
  most the critical pressure or the fill percentage is at most the literal 10. For
  the second sample tank as loaded from the database the pressure 1800 exceeds the
  critical pressure 200 and the fill percentage 90 exceeds 10, yet isCritical is
  true: both pressures are text, and \<^verbatim>\<open>'1800.00' <= '200.00'\<close> is a comparison of
  text. On a tank whose three columns hold finite numbers isCritical is the
  comparison of the numbers, with the literal 10.
\<close>

theorem isCritical_loaded_tank_evaluated:
  "isCritical loaded_tank
   \<and> ToNumber (currentPressure loaded_tank) = Num 1800
   \<and> ToNumber (criticalPressure loaded_tank) = Num 200
   \<and> ToNumber (fillPercentage loaded_tank) = Num 90
   \<and> \<not> number_le (Num 1800) (Num 200)
   \<and> \<not> number_le (Num 90) (Num 10)
   \<and> isCritical (t\<lparr>currentPressure := JNum (Num p), criticalPressure := JNum (Num c),
                    fillPercentage := JNum (Num f)\<rparr>) = (p \<le> c \<or> f \<le> 10)"
  by (simp add: isCritical_def loaded_tank_def parse_defs binary64_1800 binary64_200
      binary64_90)

end
